theory Spec2Isabelle
  imports Complex_Main "HOL-Library.Sublist"
begin

section \<open>Upstream requests\<close>

text \<open>
  Every handler of \<^verbatim>\<open>server/routes/apify.ts\<close> talks to the remote platform through
  \<^verbatim>\<open>fetch\<close> and reads the body of a successful response with \<^verbatim>\<open>response.json()\<close>.
  Both calls always sit in the same \<^verbatim>\<open>try\<close> block, and the body is read only when
  \<^verbatim>\<open>response.ok\<close> holds, so one request has three outcomes:
  \<^item> \<open>Threw\<close>: \<^verbatim>\<open>fetch\<close> rejected, or the response was ok and \<^verbatim>\<open>json()\<close> rejected;
  \<^item> \<open>NotOk status statusText\<close>: a response with \<^verbatim>\<open>ok = false\<close>;
  \<^item> \<open>IsOk body\<close>: a response with \<^verbatim>\<open>ok = true\<close> and its parsed body.
  The outcomes of the requests are inputs of the model. Strings are HOL strings, one
  \<open>char\<close> standing for one code unit.
\<close>

datatype 'a fetched = Threw | NotOk nat string | IsOk 'a

text \<open>
  \<^verbatim>\<open>const apiKey = req.headers.authorization?.replace("Bearer ", "")\<close>: the first
  occurrence of the pattern is replaced; an absent header gives \<^verbatim>\<open>undefined\<close>.
\<close>

fun replaceFirst :: "string \<Rightarrow> string \<Rightarrow> string \<Rightarrow> string" where
  "replaceFirst pat rep [] = (if pat = [] then rep else [])"
| "replaceFirst pat rep (c # cs) =
     (if prefix pat (c # cs) then rep @ drop (length pat) (c # cs)
      else c # replaceFirst pat rep cs)"

definition apiKeyOf :: "string option \<Rightarrow> string option" where
  "apiKeyOf authorization = map_option (replaceFirst ''Bearer '' '''') authorization"

text \<open>\<^verbatim>\<open>!apiKey\<close>: true of \<^verbatim>\<open>undefined\<close> and of the empty string.\<close>

definition noKey :: "string option \<Rightarrow> bool" where
  "noKey apiKey = (case apiKey of None \<Rightarrow> True | Some k \<Rightarrow> k = [])"

section \<open>The actor catalogue: \<^verbatim>\<open>listActors\<close>\<close>

text \<open>\<^verbatim>\<open>ApifyActor\<close> of \<^verbatim>\<open>shared/api.ts\<close>.\<close>

record actor =
  actor_id :: string
  actor_name :: string
  actor_title :: string
  actor_description :: "string option"
  isPublic :: bool
  username :: string
  createdAt :: string
  modifiedAt :: string
  totalRuns :: nat

text \<open>
  The messages of the error envelopes, one constructor for each literal of the source:
  \<^item> \<open>KeyRequired\<close>: \<^verbatim>\<open>"API key is required"\<close>;
  \<^item> \<open>ActorIdRequired\<close>: \<^verbatim>\<open>"Actor ID is required"\<close>;
  \<^item> \<open>FetchActorsFailed s t\<close>: \<^verbatim>\<open>`Failed to fetch actors: ${s} ${t}`\<close>;
  \<^item> \<open>FetchActorsThrew\<close>: \<^verbatim>\<open>"Failed to fetch actors from Apify"\<close>;
  \<^item> \<open>FetchDetailFailed s t\<close>: \<^verbatim>\<open>`Failed to fetch actor details: ${s} ${t}`\<close>;
  \<^item> \<open>FetchSchemaThrew\<close>: \<^verbatim>\<open>"Failed to fetch actor schema from Apify"\<close>;
  \<^item> \<open>StartRunFailed s t\<close>: \<^verbatim>\<open>`Failed to start actor run: ${s} ${t}`\<close>;
  \<^item> \<open>ExecuteThrew\<close>: \<^verbatim>\<open>"Failed to execute actor"\<close>.
\<close>

datatype message =
    KeyRequired
  | ActorIdRequired
  | FetchActorsFailed nat string
  | FetchActorsThrew
  | FetchDetailFailed nat string
  | FetchSchemaThrew
  | StartRunFailed nat string
  | ExecuteThrew

text \<open>
  What the handler sends: the HTTP status (\<^verbatim>\<open>res.json\<close> alone sends 200) and the
  \<^verbatim>\<open>ListActorsResponse\<close> body.
\<close>

record list_reply =
  list_code :: nat
  actors :: "actor list"
  list_error :: "message option"

definition popularActors :: "string list" where
  "popularActors =
     [''nwua9Gu5YrADL7ZDj'', ''apify/web-scraper'', ''apify/google-search-results-scraper'']"

text \<open>
  Lines 89-106: the owned items, then the accessible items whose id is not among
  \<^verbatim>\<open>existingIds\<close>, the ids of the list built so far. A listing that was not ok
  contributes nothing.
\<close>

definition pushOwned :: "actor list fetched \<Rightarrow> actor list" where
  "pushOwned myActorsResponse =
     (case myActorsResponse of IsOk items \<Rightarrow> items | _ \<Rightarrow> [])"

definition pushAccessible :: "actor list fetched \<Rightarrow> actor list \<Rightarrow> actor list" where
  "pushAccessible accessibleActorsResponse allActors =
     (case accessibleActorsResponse of
        IsOk items \<Rightarrow>
          allActors @ filter (\<lambda>a. actor_id a \<notin> set (map actor_id allActors)) items
      | _ \<Rightarrow> allActors)"

text \<open>
  Lines 115-132, the loop over \<^verbatim>\<open>popularActors\<close>. The test is on the id of the
  loop, the string the actor is requested under; the actor of an ok response is pushed
  as it is. A response that is not ok and a request that throws leave the list alone.
  The body of the detail response is taken at its \<^verbatim>\<open>ApifyActor\<close> fields, the ones
  a \<^verbatim>\<open>ListActorsResponse\<close> has.
\<close>

fun addPopular :: "(string \<Rightarrow> actor fetched) \<Rightarrow> string list \<Rightarrow> actor list \<Rightarrow> actor list" where
  "addPopular fetchActor [] allActors = allActors"
| "addPopular fetchActor (actorId # rest) allActors =
     (if actorId \<in> set (map actor_id allActors) then addPopular fetchActor rest allActors
      else (case fetchActor actorId of
              IsOk actorData \<Rightarrow> addPopular fetchActor rest (allActors @ [actorData])
            | _ \<Rightarrow> addPopular fetchActor rest allActors))"

definition listActors ::
  "string option \<Rightarrow> actor list fetched \<Rightarrow> actor list fetched \<Rightarrow> (string \<Rightarrow> actor fetched)
     \<Rightarrow> list_reply" where
  "listActors authorization myActorsResponse accessibleActorsResponse fetchActor =
     (if noKey (apiKeyOf authorization)
      then \<lparr>list_code = 401, actors = [], list_error = Some KeyRequired\<rparr>
      else (case (myActorsResponse, accessibleActorsResponse) of
              (Threw, _) \<Rightarrow>
                \<lparr>list_code = 500, actors = [], list_error = Some FetchActorsThrew\<rparr>
            | (_, Threw) \<Rightarrow>
                \<lparr>list_code = 500, actors = [], list_error = Some FetchActorsThrew\<rparr>
            | (NotOk s t, NotOk s' t') \<Rightarrow>
                \<lparr>list_code = s, actors = [], list_error = Some (FetchActorsFailed s t)\<rparr>
            | _ \<Rightarrow>
                \<lparr>list_code = 200,
                 actors = addPopular fetchActor popularActors
                            (pushAccessible accessibleActorsResponse
                               (pushOwned myActorsResponse)),
                 list_error = None\<rparr>))"

section \<open>Dynamically typed values\<close>

text \<open>
  What \<^verbatim>\<open>JSON.parse\<close> and \<^verbatim>\<open>response.json()\<close> produce where the source declares
  \<^verbatim>\<open>any\<close>. The entries of an object are in the order \<^verbatim>\<open>Object.entries\<close> lists them.
\<close>

datatype json =
    JNull
  | JBool bool
  | JNum real
  | JStr string
  | JArr "json list"
  | JObj "(string \<times> json) list"

text \<open>The truth value JavaScript gives a parsed value, as in \<^verbatim>\<open>input || {}\<close>.\<close>

fun truthy :: "json \<Rightarrow> bool" where
  "truthy JNull = False"
| "truthy (JBool b) = b"
| "truthy (JNum n) = (n \<noteq> 0)"
| "truthy (JStr s) = (s \<noteq> [])"
| "truthy (JArr xs) = True"
| "truthy (JObj kvs) = True"

section \<open>Running an actor: \<^verbatim>\<open>executeActor\<close>\<close>

text \<open>\<^verbatim>\<open>ApifyRun\<close> of \<^verbatim>\<open>shared/api.ts\<close>.\<close>

datatype run_status = READY | RUNNING | SUCCEEDED | FAILED | TIMED_OUT | ABORTED

record run_stats =
  inputBytes :: "real option"
  outputBytes :: "real option"
  runTimeSecs :: "real option"

record run_options =
  build :: string
  timeoutSecs :: real
  memoryMbytes :: real

record run_meta =
  origin :: string
  clientIp :: string
  userAgent :: string

record run =
  run_id :: string
  actId :: string
  userId :: string
  startedAt :: string
  finishedAt :: "string option"
  status :: run_status
  stats :: run_stats
  options :: run_options
  meta :: run_meta

text \<open>\<^verbatim>\<open>ApifyDatasetItem\<close>: a record of dynamically typed fields.\<close>

type_synonym dataset_item = "(string \<times> json) list"

text \<open>
  The requests the handler issues, in the order it issues them:
  \<^item> \<open>StartRun actorId body\<close>: \<^verbatim>\<open>POST /acts/${actorId}/runs\<close>;
  \<^item> \<open>GetRun actorId runId\<close>: \<^verbatim>\<open>GET /acts/${actorId}/runs/${runId}\<close>;
  \<^item> \<open>GetDataset actorId runId\<close>: \<^verbatim>\<open>GET /acts/${actorId}/runs/${runId}/dataset/items\<close>.
\<close>

datatype run_request =
    StartRun string json
  | GetRun string string
  | GetDataset string string

text \<open>
  \<^verbatim>\<open>ExecuteActorResponse\<close> and the HTTP status it is sent with. An error envelope has
  \<^verbatim>\<open>run: {} as any\<close>, here \<open>None\<close>.
\<close>

record exec_reply =
  exec_code :: nat
  exec_run :: "run option"
  results :: "dataset_item list option"
  exec_error :: "message option"

definition maxWaitTime :: int where
  "maxWaitTime = 60000"

definition pollInterval :: int where
  "pollInterval = 2000"

text \<open>\<^verbatim>\<open>JSON.stringify(input || {})\<close>, the body of the submit request, before printing.\<close>

definition inputOrEmpty :: "json option \<Rightarrow> json" where
  "inputOrEmpty input =
     (case input of None \<Rightarrow> JObj [] | Some v \<Rightarrow> if truthy v then v else JObj [])"

text \<open>
  Lines 639-659. \<open>now k\<close> is the value of the \<open>k\<close>-th call of \<^verbatim>\<open>Date.now()\<close>
  (\<open>now 0\<close> is \<^verbatim>\<open>startTime\<close>; the loop test reads the clock only when the status is
  \<^verbatim>\<open>RUNNING\<close>, once for each iteration it starts and once when it leaves on the clock),
  and \<open>getRun i\<close> is the outcome of the status request of iteration \<open>i\<close>, issued after
  the sleep of \<^verbatim>\<open>pollInterval\<close> milliseconds. The clock and the outcomes are inputs,
  so the loop need not end: \<open>None\<close> is a loop that runs forever. A status request that
  throws leaves the loop for the \<^verbatim>\<open>catch\<close> of the handler: \<open>Inl n\<close>, after \<open>n\<close>
  requests. Otherwise \<open>Inr (finalRun, n)\<close>.
\<close>

partial_function (option) pollLoop ::
  "(nat \<Rightarrow> int) \<Rightarrow> (nat \<Rightarrow> run fetched) \<Rightarrow> nat \<Rightarrow> run \<Rightarrow> (nat + run \<times> nat) option" where
  "pollLoop now getRun i finalRun =
     (if status finalRun = RUNNING \<and> now (Suc i) - now 0 < maxWaitTime
      then (case getRun i of
              Threw \<Rightarrow> Some (Inl (Suc i))
            | NotOk s t \<Rightarrow> pollLoop now getRun (Suc i) finalRun
            | IsOk statusData \<Rightarrow> pollLoop now getRun (Suc i) statusData)
      else Some (Inr (finalRun, i)))"

text \<open>Lines 682-687: \<^verbatim>\<open>results.length > 0 ? results : undefined\<close>.\<close>

definition successResponse :: "run \<Rightarrow> dataset_item list \<Rightarrow> exec_reply" where
  "successResponse finalRun res =
     \<lparr>exec_code = 200, exec_run = Some finalRun,
      results = (if length res > 0 then Some res else None), exec_error = None\<rparr>"

definition executeThrew :: exec_reply where
  "executeThrew =
     \<lparr>exec_code = 500, exec_run = None, results = None, exec_error = Some ExecuteThrew\<rparr>"

text \<open>
  Lines 661-687, after the loop: the dataset is requested only for \<^verbatim>\<open>SUCCEEDED\<close>;
  its \<^verbatim>\<open>try\<close> swallows a request that throws, and a response that is not ok leaves
  \<^verbatim>\<open>results\<close> at \<^verbatim>\<open>[]\<close>.
\<close>

definition fetchResults ::
  "string \<Rightarrow> run \<Rightarrow> dataset_item list fetched \<Rightarrow> run \<Rightarrow> exec_reply \<times> run_request list" where
  "fetchResults actorId run getDataset finalRun =
     (if status finalRun = SUCCEEDED
      then (case getDataset of
              IsOk items \<Rightarrow> (successResponse finalRun items, [GetDataset actorId (run_id run)])
            | _ \<Rightarrow> (successResponse finalRun [], [GetDataset actorId (run_id run)]))
      else (successResponse finalRun [], []))"

text \<open>
  The handler: the reply and the requests issued, or \<open>None\<close> when the loop never ends.
  \<open>actorId\<close> is \<^verbatim>\<open>req.params.actorId\<close> and \<open>input\<close> is \<^verbatim>\<open>req.body.input\<close>.
\<close>

definition executeActor ::
  "string option \<Rightarrow> string \<Rightarrow> json option \<Rightarrow> run fetched \<Rightarrow> (nat \<Rightarrow> int)
     \<Rightarrow> (nat \<Rightarrow> run fetched) \<Rightarrow> dataset_item list fetched
     \<Rightarrow> (exec_reply \<times> run_request list) option" where
  "executeActor authorization actorId input startRun now getRun getDataset =
     (if noKey (apiKeyOf authorization)
      then Some (\<lparr>exec_code = 401, exec_run = None, results = None,
                  exec_error = Some KeyRequired\<rparr>, [])
      else if actorId = []
      then Some (\<lparr>exec_code = 400, exec_run = None, results = None,
                  exec_error = Some ActorIdRequired\<rparr>, [])
      else (case startRun of
              Threw \<Rightarrow> Some (executeThrew, [StartRun actorId (inputOrEmpty input)])
            | NotOk s t \<Rightarrow>
                Some (\<lparr>exec_code = s, exec_run = None, results = None,
                       exec_error = Some (StartRunFailed s t)\<rparr>,
                      [StartRun actorId (inputOrEmpty input)])
            | IsOk run \<Rightarrow>
                (case pollLoop now getRun 0 run of
                   None \<Rightarrow> None
                 | Some (Inl n) \<Rightarrow>
                     Some (executeThrew,
                           StartRun actorId (inputOrEmpty input)
                             # replicate n (GetRun actorId (run_id run)))
                 | Some (Inr (finalRun, n)) \<Rightarrow>
                     (case fetchResults actorId run getDataset finalRun of
                        (reply, fetches) \<Rightarrow>
                          Some (reply,
                                StartRun actorId (inputOrEmpty input)
                                  # replicate n (GetRun actorId (run_id run)) @ fetches)))))"

section \<open>Input schemas: \<^verbatim>\<open>getActorSchema\<close>\<close>

text \<open>
  \<^verbatim>\<open>ApifyInputSchema\<close>. \<^verbatim>\<open>properties\<close> is a \<^verbatim>\<open>Record<string, any>\<close>: a map from
  the parameter name to a dynamically typed property.
\<close>

record schema =
  schema_title :: string
  schema_type :: string
  schema_description :: "string option"
  properties :: "string \<rightharpoonup> json"
  required :: "string list option"

text \<open>\<^verbatim>\<open>ApifyActorVersion\<close>, and the data of \<^verbatim>\<open>ApifyActorDetailResponse\<close>.\<close>

record actor_version =
  versionNumber :: string
  buildTag :: string
  inputSchema :: "schema option"

record tagged_build =
  buildId :: string
  buildNumber :: string

record pricing_info =
  pricePerUnitUsd :: real
  trialMinutes :: real

text \<open>
  \<open>taggedLatest\<close> is \<^verbatim>\<open>taggedBuilds?.latest\<close> and \<open>exampleBody\<close> is the
  \<^verbatim>\<open>body\<close> of \<^verbatim>\<open>exampleRunInput\<close>, \<open>None\<close> when the outer field is absent. The
  source treats an absent \<^verbatim>\<open>versions\<close> as an empty one.
\<close>

record actor_detail = actor +
  versions :: "actor_version list"
  taggedLatest :: "tagged_build option"
  exampleBody :: "string option"
  pricingInfos :: "pricing_info list option"
  categories :: "string list option"

text \<open>An item of the builds listing; the source reads its \<^verbatim>\<open>inputSchema\<close> only.\<close>

record actor_build =
  build_inputSchema :: "schema option"

text \<open>
  Functions of the JavaScript platform that the handler calls and the repository does
  not define. They are parameters of the model:
  \<^item> \<open>JSON_parse\<close>: \<^verbatim>\<open>JSON.parse\<close>, \<open>None\<close> when it throws;
  \<^item> \<open>toUpperCase\<close>: \<^verbatim>\<open>String.prototype.toUpperCase\<close>;
  \<^item> \<open>numberText\<close>: a number inside a template literal;
  \<^item> \<open>hoursText\<close>: \<^verbatim>\<open>${Math.round(minutes / 60)}\<close> inside a template literal.
\<close>

record platform =
  JSON_parse :: "string \<Rightarrow> json option"
  toUpperCase :: "string \<Rightarrow> string"
  numberText :: "real \<Rightarrow> string"
  hoursText :: "real \<Rightarrow> string"

text \<open>
  The outcome of each upstream request of the handler; \<open>buildResponse\<close> by build id.
  A listing body is read through \<^verbatim>\<open>data?.items\<close> and a build body through
  \<^verbatim>\<open>data?.inputSchema\<close>: \<open>None\<close> when the path is absent.
\<close>

record upstream =
  actorResponse :: "actor_detail fetched"
  versionsResponse :: "actor_version list option fetched"
  buildResponse :: "string \<Rightarrow> schema option fetched"
  buildsResponse :: "actor_build list option fetched"

datatype schema_request =
    GetActor string
  | GetVersions string
  | GetBuild string string
  | GetBuilds string

record schema_reply =
  schema_code :: nat
  reply_schema :: "schema option"
  schema_error :: "message option"

subsection \<open>The schema made from an example input (lines 349-398)\<close>

text \<open>\<^verbatim>\<open>typeof value\<close> and \<^verbatim>\<open>Array.isArray(value)\<close> on a parsed value.\<close>

fun typeof :: "json \<Rightarrow> string" where
  "typeof JNull = ''object''"
| "typeof (JBool b) = ''boolean''"
| "typeof (JNum n) = ''number''"
| "typeof (JStr s) = ''string''"
| "typeof (JArr xs) = ''object''"
| "typeof (JObj kvs) = ''object''"

fun isArray :: "json \<Rightarrow> bool" where
  "isArray (JArr xs) = True"
| "isArray v = False"

text \<open>\<^verbatim>\<open>value.length\<close> where \<^verbatim>\<open>typeof value === 'string'\<close>.\<close>

fun stringLength :: "json \<Rightarrow> nat" where
  "stringLength (JStr s) = length s"
| "stringLength v = 0"

text \<open>The decimal numeral of an index, the key \<^verbatim>\<open>Object.entries\<close> gives it.\<close>

fun showNat :: "nat \<Rightarrow> string" where
  "showNat n =
     (if n < 10 then [char_of (48 + n)]
      else showNat (n div 10) @ [char_of (48 + n mod 10)])"

text \<open>
  \<^verbatim>\<open>Object.entries(parsed)\<close>: the entries of an object, the indexed elements of an array,
  the indexed characters of a string, nothing for a number or a boolean, and a
  \<^verbatim>\<open>TypeError\<close> for \<^verbatim>\<open>null\<close> (\<open>None\<close>).
\<close>

fun entries :: "json \<Rightarrow> (string \<times> json) list option" where
  "entries JNull = None"
| "entries (JBool b) = Some []"
| "entries (JNum n) = Some []"
| "entries (JStr s) = Some (zip (map showNat [0..<length s]) (map (\<lambda>c. JStr [c]) s))"
| "entries (JArr xs) = Some (zip (map showNat [0..<length xs]) xs)"
| "entries (JObj kvs) = Some kvs"

text \<open>Lines 368-388: the property made for one entry, its fields in the order they are set.\<close>

definition exampleProperty :: "platform \<Rightarrow> string \<Rightarrow> json \<Rightarrow> json" where
  "exampleProperty pf key value =
     JObj ([(''title'', JStr (toUpperCase pf (take 1 key) @ drop 1 key)),
            (''description'', JStr (''Input parameter: '' @ key))] @
           (if typeof value = ''string''
            then (''type'', JStr ''string'') #
                 (if stringLength value > 50 then [(''format'', JStr ''textarea'')] else [])
            else if typeof value = ''number'' then [(''type'', JStr ''number'')]
            else if typeof value = ''boolean'' then [(''type'', JStr ''boolean'')]
            else if isArray value then [(''type'', JStr ''array'')]
            else if typeof value = ''object'' then [(''type'', JStr ''object'')]
            else [(''type'', JStr ''string'')]))"

text \<open>
  Line 390 in the loop of line 367: \<^verbatim>\<open>schema.properties[key] = property\<close>. The map
  holds the own keys of \<^verbatim>\<open>schema.properties\<close>, the ones the reply is printed from. For
  the key \<^verbatim>\<open>__proto__\<close> the assignment sets the prototype of the object to the property
  and creates no own key.
\<close>

fun exampleProperties ::
  "platform \<Rightarrow> (string \<times> json) list \<Rightarrow> (string \<rightharpoonup> json) \<Rightarrow> (string \<rightharpoonup> json)" where
  "exampleProperties pf [] props = props"
| "exampleProperties pf ((key, value) # rest) props =
     exampleProperties pf rest
       (if key = ''__proto__'' then props
        else props(key \<mapsto> exampleProperty pf key value))"

text \<open>\<^verbatim>\<open>actorData.data.title || d\<close> and \<^verbatim>\<open>actorData.data.description || d\<close>.\<close>

definition titleOr :: "actor_detail \<Rightarrow> string \<Rightarrow> string" where
  "titleOr actorData d = (if actor_title actorData = [] then d else actor_title actorData)"

definition descriptionOr :: "actor_detail \<Rightarrow> string \<Rightarrow> string" where
  "descriptionOr actorData d =
     (case actor_description actorData of
        None \<Rightarrow> d
      | Some text \<Rightarrow> if text = [] then d else text)"

text \<open>
  Lines 359-391. The schema is assigned before the loop, so when
  \<^verbatim>\<open>Object.entries\<close> throws the \<^verbatim>\<open>catch\<close> of line 395 leaves it with no property.
\<close>

definition exampleSchema :: "platform \<Rightarrow> actor_detail \<Rightarrow> json \<Rightarrow> schema" where
  "exampleSchema pf actorData parsed =
     \<lparr>schema_title = titleOr actorData ''Actor Input'',
      schema_type = ''object'',
      schema_description = Some (descriptionOr actorData ''Input parameters for this actor''),
      properties = (case entries parsed of
                      None \<Rightarrow> Map.empty
                    | Some kvs \<Rightarrow> exampleProperties pf kvs Map.empty),
      required = None\<rparr>"

subsection \<open>The schema made from the actor's metadata (lines 520-568)\<close>

definition isPaidActor :: "actor_detail \<Rightarrow> bool" where
  "isPaidActor actorData =
     (case pricingInfos actorData of None \<Rightarrow> False | Some ps \<Rightarrow> length ps > 0)"

definition hasTrialMinutes :: "actor_detail \<Rightarrow> bool" where
  "hasTrialMinutes actorData =
     (isPaidActor actorData \<and> trialMinutes (hd (the (pricingInfos actorData))) > 0)"

definition jobsProperties :: "(string \<times> json) list" where
  "jobsProperties =
     [(''keywords'', JObj [(''title'', JStr ''Keywords''), (''type'', JStr ''array''),
                          (''description'', JStr ''Job search keywords''),
                          (''items'', JObj [(''type'', JStr ''string'')])]),
      (''location'', JObj [(''title'', JStr ''Location''), (''type'', JStr ''string''),
                          (''description'', JStr ''Job location or region'')])]"

definition inputProperty :: "platform \<Rightarrow> actor_detail \<Rightarrow> json" where
  "inputProperty pf actorData =
     JObj [(''title'', JStr ''Input Data''), (''type'', JStr ''string''),
           (''format'', JStr ''textarea''),
           (''description'',
            JStr (''Input data for '' @ titleOr actorData ''this actor'' @ ''. '' @
                  (if isPaidActor actorData
                   then ''This is a paid actor'' @
                        (if hasTrialMinutes actorData
                         then '' with '' @
                              hoursText pf (trialMinutes (hd (the (pricingInfos actorData)))) @
                              '' hours of trial time''
                         else []) @ ''.''
                   else [])))]"

definition pricingProperty :: "platform \<Rightarrow> actor_detail \<Rightarrow> json" where
  "pricingProperty pf actorData =
     JObj [(''title'', JStr ''Pricing Information''), (''type'', JStr ''string''),
           (''description'',
            JStr (''This actor costs $'' @
                  numberText pf (pricePerUnitUsd (hd (the (pricingInfos actorData)))) @
                  ''/month'' @
                  (if hasTrialMinutes actorData
                   then '' with '' @
                        hoursText pf (trialMinutes (hd (the (pricingInfos actorData)))) @
                        '' hours free trial''
                   else []))),
           (''readOnly'', JBool True)]"

definition fallbackSchema :: "platform \<Rightarrow> actor_detail \<Rightarrow> schema" where
  "fallbackSchema pf actorData =
     \<lparr>schema_title = titleOr actorData ''Actor Input'',
      schema_type = ''object'',
      schema_description = Some (descriptionOr actorData ''Input parameters for this actor''),
      properties =
        (let spread = (case categories actorData of
                         None \<Rightarrow> []
                       | Some cs \<Rightarrow> if ''JOBS'' \<in> set cs then jobsProperties else []);
             props = map_of (spread @ [(''input'', inputProperty pf actorData)])
         in if isPaidActor actorData
            then props(''_pricing_info'' \<mapsto> pricingProperty pf actorData)
            else props),
      required = Some []\<rparr>"

subsection \<open>The cascade (lines 259-568)\<close>

text \<open>
  The handler keeps one variable \<^verbatim>\<open>schema\<close>, \<^verbatim>\<open>null\<close> at first, and runs seven
  blocks one after the other; all but the first are guarded by \<^verbatim>\<open>!schema\<close>. The state
  threaded through the blocks is the variable and the requests issued so far. A schema,
  once parsed, is an object and so never falsy: \<^verbatim>\<open>!schema\<close> is \<open>schema = None\<close>.
\<close>

type_synonym cascade_state = "schema option \<times> schema_request list"

text \<open>Lines 262-270: the schema embedded in \<^verbatim>\<open>versions[0]\<close> of the actor detail.\<close>

definition embeddedSchema :: "actor_detail \<Rightarrow> schema option" where
  "embeddedSchema actorData =
     (case versions actorData of
        [] \<Rightarrow> None
      | latestVersion # others \<Rightarrow> inputSchema latestVersion)"

text \<open>
  Lines 274-294: the versions listing. The variable is assigned whenever the listing has
  an item, also when that item has no schema.
\<close>

definition versionsSchema :: "upstream \<Rightarrow> schema option" where
  "versionsSchema up =
     (case versionsResponse up of
        IsOk (Some (latestVersion # others)) \<Rightarrow> inputSchema latestVersion
      | _ \<Rightarrow> None)"

text \<open>Lines 299-318: the detail of the build tagged \<^verbatim>\<open>latest\<close>.\<close>

definition buildSchema :: "upstream \<Rightarrow> tagged_build \<Rightarrow> schema option" where
  "buildSchema up latestBuild =
     (case buildResponse up (buildId latestBuild) of
        IsOk found \<Rightarrow> found
      | _ \<Rightarrow> None)"

text \<open>Lines 323-345: the builds listing.\<close>

definition buildsSchema :: "upstream \<Rightarrow> schema option" where
  "buildsSchema up =
     (case buildsResponse up of
        IsOk (Some (latestBuild # others)) \<Rightarrow> build_inputSchema latestBuild
      | _ \<Rightarrow> None)"

text \<open>
  Lines 350-397: the example input. Nothing is assigned when the body is empty or
  \<^verbatim>\<open>JSON.parse\<close> throws.
\<close>

definition exampleInputSchema :: "platform \<Rightarrow> actor_detail \<Rightarrow> string \<Rightarrow> schema option" where
  "exampleInputSchema pf actorData body =
     (if body = [] then None
      else (case JSON_parse pf body of
              None \<Rightarrow> None
            | Some parsed \<Rightarrow> Some (exampleSchema pf actorData parsed)))"

text \<open>
  The blocks as state transformers. In each of them the variable is \<^verbatim>\<open>null\<close> or
  \<^verbatim>\<open>undefined\<close> on entry, so assigning an absent schema leaves \<open>None\<close>.
\<close>

definition tryVersions :: "upstream \<Rightarrow> string \<Rightarrow> cascade_state \<Rightarrow> cascade_state" where
  "tryVersions up actorId st =
     (if fst st = None then (versionsSchema up, snd st @ [GetVersions actorId]) else st)"

definition tryTaggedBuild ::
  "upstream \<Rightarrow> string \<Rightarrow> actor_detail \<Rightarrow> cascade_state \<Rightarrow> cascade_state" where
  "tryTaggedBuild up actorId actorData st =
     (if fst st = None \<and> taggedLatest actorData \<noteq> None
      then (buildSchema up (the (taggedLatest actorData)),
            snd st @ [GetBuild actorId (buildId (the (taggedLatest actorData)))])
      else st)"

definition tryBuilds :: "upstream \<Rightarrow> string \<Rightarrow> cascade_state \<Rightarrow> cascade_state" where
  "tryBuilds up actorId st =
     (if fst st = None then (buildsSchema up, snd st @ [GetBuilds actorId]) else st)"

definition tryExample :: "platform \<Rightarrow> actor_detail \<Rightarrow> cascade_state \<Rightarrow> cascade_state" where
  "tryExample pf actorData st =
     (if fst st = None \<and> exampleBody actorData \<noteq> None
      then (exampleInputSchema pf actorData (the (exampleBody actorData)), snd st)
      else st)"

text \<open>
  Lines 401-517. The literal assigned there is the parameter \<open>predefined\<close>: its titles
  hold characters that a \<open>char\<close> cannot, and no property below depends on its value.
\<close>

definition tryPredefined :: "schema \<Rightarrow> string \<Rightarrow> cascade_state \<Rightarrow> cascade_state" where
  "tryPredefined predefined actorId st =
     (if fst st = None \<and> actorId = ''nwua9Gu5YrADL7ZDj'' then (Some predefined, snd st) else st)"

definition tryFallback :: "platform \<Rightarrow> actor_detail \<Rightarrow> cascade_state \<Rightarrow> cascade_state" where
  "tryFallback pf actorData st =
     (if fst st = None then (Some (fallbackSchema pf actorData), snd st) else st)"

text \<open>
  The handler: the reply and the requests issued. Reading the text of an error response
  (line 247) is taken to succeed.
\<close>

definition getActorSchema ::
  "platform \<Rightarrow> schema \<Rightarrow> upstream \<Rightarrow> string option \<Rightarrow> string
     \<Rightarrow> schema_reply \<times> schema_request list" where
  "getActorSchema pf predefined up authorization actorId =
     (if noKey (apiKeyOf authorization)
      then (\<lparr>schema_code = 401, reply_schema = None, schema_error = Some KeyRequired\<rparr>, [])
      else if actorId = []
      then (\<lparr>schema_code = 400, reply_schema = None, schema_error = Some ActorIdRequired\<rparr>, [])
      else (case actorResponse up of
              Threw \<Rightarrow>
                (\<lparr>schema_code = 500, reply_schema = None,
                  schema_error = Some FetchSchemaThrew\<rparr>, [GetActor actorId])
            | NotOk s t \<Rightarrow>
                (\<lparr>schema_code = s, reply_schema = None,
                  schema_error = Some (FetchDetailFailed s t)\<rparr>, [GetActor actorId])
            | IsOk actorData \<Rightarrow>
                (case tryFallback pf actorData
                        (tryPredefined predefined actorId
                          (tryExample pf actorData
                            (tryBuilds up actorId
                              (tryTaggedBuild up actorId actorData
                                (tryVersions up actorId
                                  (embeddedSchema actorData, [GetActor actorId])))))) of
                   (schema, requests) \<Rightarrow>
                     (\<lparr>schema_code = 200, reply_schema = schema, schema_error = None\<rparr>,
                      requests))))"

subsection \<open>The cascade as the specification words it\<close>

text \<open>
  A probe is the requests it issues and the schema it finds, if any. The cascade runs
  the probes in order and stops at the first one that finds a schema; the probes after it
  issue nothing.
\<close>

type_synonym probe = "schema_request list \<times> schema option"

fun firstSuccess :: "probe list \<Rightarrow> probe" where
  "firstSuccess [] = ([], None)"
| "firstSuccess ((requests, found) # probes) =
     (case found of
        Some s \<Rightarrow> (requests, Some s)
      | None \<Rightarrow> (requests @ fst (firstSuccess probes), snd (firstSuccess probes)))"

text \<open>The seven probes of the specification, each with the source's condition for
  attempting it; a probe that is not attempted issues nothing and finds nothing.\<close>

definition probes ::
  "platform \<Rightarrow> schema \<Rightarrow> upstream \<Rightarrow> string \<Rightarrow> actor_detail \<Rightarrow> probe list" where
  "probes pf predefined up actorId actorData =
     [([], embeddedSchema actorData),
      ([GetVersions actorId], versionsSchema up),
      (case taggedLatest actorData of
         None \<Rightarrow> ([], None)
       | Some latestBuild \<Rightarrow>
           ([GetBuild actorId (buildId latestBuild)], buildSchema up latestBuild)),
      ([GetBuilds actorId], buildsSchema up),
      (case exampleBody actorData of
         None \<Rightarrow> ([], None)
       | Some body \<Rightarrow> ([], exampleInputSchema pf actorData body)),
      ([], if actorId = ''nwua9Gu5YrADL7ZDj'' then Some predefined else None),
      ([], Some (fallbackSchema pf actorData))]"

section \<open>Notions of the specification\<close>

text \<open>\<^verbatim>\<open>property.type\<close>, \<^verbatim>\<open>property.format\<close>: reading a field of a property.\<close>

fun field :: "string \<Rightarrow> json \<Rightarrow> json option" where
  "field name (JObj kvs) = map_of kvs name"
| "field name v = None"

text \<open>
  The run the executor holds after \<open>n\<close> status requests, none of which threw: the body of
  the latest ok response among them, or the submitted run when there is none.
\<close>

fun lastObserved :: "(nat \<Rightarrow> run fetched) \<Rightarrow> run \<Rightarrow> nat \<Rightarrow> run" where
  "lastObserved getRun run 0 = run"
| "lastObserved getRun run (Suc n) =
     (case getRun n of
        IsOk statusData \<Rightarrow> statusData
      | _ \<Rightarrow> lastObserved getRun run n)"

section \<open>Example inputs\<close>

definition actorWith :: "string \<Rightarrow> actor" where
  "actorWith i =
     \<lparr>actor_id = i, actor_name = ''web-scraper'', actor_title = ''Web Scraper'',
      actor_description = None, isPublic = True, username = ''apify'',
      createdAt = ''2019-03-06'', modifiedAt = ''2024-01-01'', totalRuns = 7\<rparr>"

text \<open>Every curated lookup answers 404.\<close>

definition noCurated :: "string \<Rightarrow> actor fetched" where
  "noCurated actorId = NotOk 404 ''Not Found''"

text \<open>
  The lookup of \<^verbatim>\<open>apify/web-scraper\<close> answers with the actor, whose \<^verbatim>\<open>id\<close> is not
  the name it was requested under; the other lookups answer 404.
\<close>

definition webScraperOnly :: "string \<Rightarrow> actor fetched" where
  "webScraperOnly actorId =
     (if actorId = ''apify/web-scraper'' then IsOk (actorWith ''moJRLRc85AitArpNN'')
      else NotOk 404 ''Not Found'')"

definition runWith :: "run_status \<Rightarrow> run" where
  "runWith s =
     \<lparr>run_id = ''HG7ML7M8z78YcAPEB'', actId = ''moJRLRc85AitArpNN'', userId = ''u1'',
      startedAt = ''2024-01-01T00:00:00.000Z'', finishedAt = None, status = s,
      stats = \<lparr>inputBytes = None, outputBytes = None, runTimeSecs = None\<rparr>,
      options = \<lparr>build = ''latest'', timeoutSecs = 300, memoryMbytes = 1024\<rparr>,
      meta = \<lparr>origin = ''API'', clientIp = ''127.0.0.1'', userAgent = ''node''\<rparr>\<rparr>"

text \<open>A clock that advances by the poll interval between two readings.\<close>

definition everyTwoSeconds :: "nat \<Rightarrow> int" where
  "everyTwoSeconds k = 1700000000000 + pollInterval * int k"

definition runningThenSucceeded :: "nat \<Rightarrow> run fetched" where
  "runningThenSucceeded k =
     (if k = 0 then IsOk (runWith RUNNING) else IsOk (runWith SUCCEEDED))"

definition alwaysRunning :: "nat \<Rightarrow> run fetched" where
  "alwaysRunning k = (if even k then NotOk 502 ''Bad Gateway'' else IsOk (runWith RUNNING))"

definition failsThenSucceeded :: "nat \<Rightarrow> run fetched" where
  "failsThenSucceeded k =
     (if k = 0 then NotOk 502 ''Bad Gateway'' else IsOk (runWith SUCCEEDED))"

definition pollThrows :: "nat \<Rightarrow> run fetched" where
  "pollThrows k = Threw"

text \<open>The run stays \<^verbatim>\<open>RUNNING\<close>; the sixth status request throws.\<close>

definition oneGlitch :: "nat \<Rightarrow> run fetched" where
  "oneGlitch k = (if k = 5 then Threw else IsOk (runWith RUNNING))"

definition oneItem :: "dataset_item list fetched" where
  "oneItem = IsOk [[(''url'', JStr ''https://example.com'')]]"

definition emptyDataset :: "dataset_item list fetched" where
  "emptyDataset = IsOk []"

definition upperAscii :: "string \<Rightarrow> string" where
  "upperAscii s =
     map (\<lambda>c. if (97::nat) \<le> of_char c \<and> of_char c \<le> (122::nat)
              then char_of (of_char c - (32::nat)) else c) s"

definition examplePlatform :: platform where
  "examplePlatform =
     \<lparr>JSON_parse = (\<lambda>body. None), toUpperCase = upperAscii,
      numberText = (\<lambda>x. ''49''), hoursText = (\<lambda>x. ''2'')\<rparr>"

definition schemaS :: schema where
  "schemaS =
     \<lparr>schema_title = ''Web Scraper input'', schema_type = ''object'',
      schema_description = None,
      properties = [''startUrls'' \<mapsto> JObj [(''title'', JStr ''Start URLs''),
                                            (''type'', JStr ''array'')]],
      required = Some [''startUrls'']\<rparr>"

definition overrideSchema :: schema where
  "overrideSchema =
     \<lparr>schema_title = ''Google Maps Scraper'', schema_type = ''object'',
      schema_description = Some ''Extract business listings from Google Maps'',
      properties = [''city'' \<mapsto> JObj [(''title'', JStr ''City''), (''type'', JStr ''string'')]],
      required = Some []\<rparr>"

text \<open>An actor with the id of the predefined schema whose first version embeds \<open>schemaS\<close>.\<close>

definition mapsActor :: actor_detail where
  "mapsActor =
     \<lparr>actor_id = ''nwua9Gu5YrADL7ZDj'', actor_name = ''crawler-google-places'',
      actor_title = ''Google Maps Scraper'', actor_description = None, isPublic = True,
      username = ''compass'', createdAt = ''2018-11-01'', modifiedAt = ''2024-01-01'',
      totalRuns = 12,
      versions = [\<lparr>versionNumber = ''0.1'', buildTag = ''latest'',
                   inputSchema = Some schemaS\<rparr>],
      taggedLatest = None, exampleBody = None, pricingInfos = None, categories = None\<rparr>"

definition mapsUpstream :: upstream where
  "mapsUpstream =
     \<lparr>actorResponse = IsOk mapsActor,
      versionsResponse = NotOk 404 ''Not Found'',
      buildResponse = (\<lambda>b. NotOk 404 ''Not Found''),
      buildsResponse = NotOk 404 ''Not Found''\<rparr>"

section \<open>Properties of the actor catalogue\<close>

lemma addPopular_append:
  "\<exists>curated. addPopular f ids xs = xs @ curated \<and>
             set curated \<subseteq> {d. \<exists>i\<in>set ids. f i = IsOk d}"
proof (induction ids arbitrary: xs)
  case Nil
  then show ?case by simp
next
  case (Cons i ids)
  show ?case
  proof (cases "i \<in> set (map actor_id xs)")
    case True
    with Cons.IH [of xs] show ?thesis by auto
  next
    case False
    show ?thesis
    proof (cases "f i")
      case (IsOk d)
      from Cons.IH [of "xs @ [d]"] obtain curated where
        "addPopular f ids (xs @ [d]) = (xs @ [d]) @ curated"
        "set curated \<subseteq> {d. \<exists>i\<in>set ids. f i = IsOk d}"
        by blast
      with False IsOk show ?thesis by (intro exI [of _ "d # curated"]) auto
    next
      case Threw
      with False Cons.IH [of xs] show ?thesis by auto
    next
      case (NotOk s t)
      with False Cons.IH [of xs] show ?thesis by auto
    qed
  qed
qed

lemma addPopular_all_fail:
  "\<forall>i\<in>set ids. \<forall>d. f i \<noteq> IsOk d \<Longrightarrow> addPopular f ids xs = xs"
  by (induction ids arbitrary: xs) (auto split: fetched.splits)

text \<open>
  The test of the loop does keep the ids apart when every lookup answers with an actor
  whose \<^verbatim>\<open>id\<close> is the string it was requested under.
\<close>

lemma addPopular_distinct:
  "distinct (map actor_id xs) \<Longrightarrow> \<forall>i d. f i = IsOk d \<longrightarrow> actor_id d = i \<Longrightarrow>
   distinct (map actor_id (addPopular f ids xs))"
  by (induction ids arbitrary: xs) (auto split: fetched.splits)

lemma distinct_exclusive:
  "distinct (map actor_id owned) \<Longrightarrow> distinct (map actor_id accessible) \<Longrightarrow>
   distinct (map actor_id
     (owned @ filter (\<lambda>a. actor_id a \<notin> actor_id ` set owned) accessible))"
  by (auto simp: distinct_map_filter) (metis imageI)

lemma listActors_ok:
  "\<not> noKey (apiKeyOf authorization) \<Longrightarrow> my \<noteq> Threw \<Longrightarrow> acc \<noteq> Threw \<Longrightarrow>
   \<not> (\<exists>s t s' t'. my = NotOk s t \<and> acc = NotOk s' t') \<Longrightarrow>
   listActors authorization my acc f =
     \<lparr>list_code = 200,
      actors = addPopular f popularActors (pushAccessible acc (pushOwned my)),
      list_error = None\<rparr>"
  by (cases my; cases acc) (simp_all add: listActors_def)

lemma listActors_both_fail:
  "\<not> noKey (apiKeyOf authorization) \<Longrightarrow>
   listActors authorization (NotOk s t) (NotOk s' t') f =
     \<lparr>list_code = s, actors = [], list_error = Some (FetchActorsFailed s t)\<rparr>"
  by (simp add: listActors_def)

lemma listActors_distinct:
  assumes "\<not> noKey (apiKeyOf authorization)"
    and "distinct (map actor_id owned)" and "distinct (map actor_id accessible)"
    and "\<forall>i d. f i = IsOk d \<longrightarrow> actor_id d = i"
  shows "distinct (map actor_id (actors (listActors authorization (IsOk owned)
           (IsOk accessible) f)))"
proof -
  have "distinct (map actor_id (pushAccessible (IsOk accessible) (pushOwned (IsOk owned))))"
    using distinct_exclusive [OF assms(2,3)] by (simp add: pushOwned_def pushAccessible_def)
  then show ?thesis
    using assms(1,4) by (simp add: listActors_ok addPopular_distinct)
qed

text \<open>
  Claim C1 (all ids of a returned catalogue differ; a curated actor is skipped when an
  actor with its id is present). The loop compares the string a curated actor is
  requested under with the ids of the list, not the id of the actor that comes back.
  With a key, an empty owned listing, an accessible listing that holds the actor
  \<^verbatim>\<open>moJRLRc85AitArpNN\<close>, and a lookup of \<^verbatim>\<open>apify/web-scraper\<close> that answers with that
  same actor, the handler replies 200 with the actor twice.
\<close>

theorem listActors_curated_duplicate:
  "listActors (Some ''Bearer key'') (IsOk []) (IsOk [actorWith ''moJRLRc85AitArpNN''])
     webScraperOnly =
     \<lparr>list_code = 200,
      actors = [actorWith ''moJRLRc85AitArpNN'', actorWith ''moJRLRc85AitArpNN''],
      list_error = None\<rparr>
   \<and> \<not> distinct (map actor_id
          (actors (listActors (Some ''Bearer key'') (IsOk [])
             (IsOk [actorWith ''moJRLRc85AitArpNN'']) webScraperOnly)))"
  by (simp add: listActors_def noKey_def apiKeyOf_def popularActors_def pushOwned_def
      pushAccessible_def webScraperOnly_def actorWith_def)

text \<open>
  Claim C3, as amended. With a key and two ok listings, the reply is a success whose list
  is the owned items in their order, then exactly the accessible items whose id is not
  the id of an owned item, in their order, then the curated actors that were added. No
  id of the second part is an id of the first; and each id occurs once across the two
  parts when the ids of each listing are pairwise distinct.
\<close>

theorem listActors_merge:
  assumes "\<not> noKey (apiKeyOf authorization)"
  shows "list_error (listActors authorization (IsOk owned) (IsOk accessible) fetchActor) = None \<and>
    (\<exists>exclusive curated.
       actors (listActors authorization (IsOk owned) (IsOk accessible) fetchActor) =
         owned @ exclusive @ curated \<and>
       exclusive = filter (\<lambda>a. actor_id a \<notin> actor_id ` set owned) accessible \<and>
       set curated \<subseteq> {d. \<exists>i\<in>set popularActors. fetchActor i = IsOk d} \<and>
       actor_id ` set owned \<inter> actor_id ` set exclusive = {} \<and>
       (distinct (map actor_id owned) \<and> distinct (map actor_id accessible) \<longrightarrow>
          distinct (map actor_id (owned @ exclusive))))"
proof -
  let ?merged = "owned @ filter (\<lambda>a. actor_id a \<notin> actor_id ` set owned) accessible"
  have r: "listActors authorization (IsOk owned) (IsOk accessible) fetchActor =
      \<lparr>list_code = 200, actors = addPopular fetchActor popularActors ?merged,
       list_error = None\<rparr>"
    using assms by (simp add: listActors_def pushOwned_def pushAccessible_def)
  obtain curated where c: "addPopular fetchActor popularActors ?merged = ?merged @ curated"
    "set curated \<subseteq> {d. \<exists>i\<in>set popularActors. fetchActor i = IsOk d}"
    using addPopular_append by blast
  have d: "actor_id ` set owned \<inter>
      actor_id ` set (filter (\<lambda>a. actor_id a \<notin> actor_id ` set owned) accessible) = {}"
    by auto (metis imageI)
  show ?thesis
    unfolding r using c d distinct_exclusive [of owned accessible] by simp
qed

text \<open>The example of the claim: owned A, B and accessible B, C give A, B, C.\<close>

theorem listActors_merge_witness:
  "\<not> noKey (apiKeyOf (Some ''Bearer key'')) \<and>
   distinct (map actor_id [actorWith ''A'', actorWith ''B'']) \<and>
   distinct (map actor_id [actorWith ''B'', actorWith ''C'']) \<and>
   actors (listActors (Some ''Bearer key'') (IsOk [actorWith ''A'', actorWith ''B''])
     (IsOk [actorWith ''B'', actorWith ''C'']) noCurated) =
     [actorWith ''A'', actorWith ''B'', actorWith ''C'']"
proof -
  have k: "\<not> noKey (apiKeyOf (Some ''Bearer key''))"
    by (simp add: noKey_def apiKeyOf_def)
  have none: "{d. \<exists>i\<in>set popularActors. noCurated i = IsOk d} = {}"
    by (simp add: noCurated_def)
  from listActors_merge [OF k, of "[actorWith ''A'', actorWith ''B'']"
      "[actorWith ''B'', actorWith ''C'']" noCurated]
  show ?thesis
    unfolding none using k by (auto simp: actorWith_def)
qed

text \<open>An owned listing that holds one id twice is returned as it is.\<close>

theorem listActors_merge_counterexample:
  "\<not> distinct (map actor_id (actors (listActors (Some ''Bearer key'')
       (IsOk [actorWith ''A'', actorWith ''A'']) (IsOk []) noCurated)))"
  by (simp add: listActors_def noKey_def apiKeyOf_def popularActors_def pushOwned_def
      pushAccessible_def noCurated_def actorWith_def)

text \<open>
  Claim C4, as amended. With a key and two listing requests neither of which throws,
  whatever the curated lookups do: the reply is an error envelope exactly when both
  listing responses are not ok, and then it carries the status of the owned response;
  and when every curated lookup fails and the reply is a success, its list is the owned
  items followed by the accessible items not among them, unchanged.
\<close>

theorem listActors_errors:
  assumes "\<not> noKey (apiKeyOf authorization)" and "my \<noteq> Threw" and "acc \<noteq> Threw"
  shows "(list_error (listActors authorization my acc fetchActor) \<noteq> None \<longleftrightarrow>
            (\<exists>s t s' t'. my = NotOk s t \<and> acc = NotOk s' t')) \<and>
         (\<forall>s t s' t'. my = NotOk s t \<and> acc = NotOk s' t' \<longrightarrow>
            list_code (listActors authorization my acc fetchActor) = s \<and>
            list_error (listActors authorization my acc fetchActor) =
              Some (FetchActorsFailed s t)) \<and>
         ((\<forall>i\<in>set popularActors. \<forall>d. fetchActor i \<noteq> IsOk d) \<and>
          list_error (listActors authorization my acc fetchActor) = None \<longrightarrow>
            actors (listActors authorization my acc fetchActor) =
              pushAccessible acc (pushOwned my))"
proof (cases "\<exists>s t s' t'. my = NotOk s t \<and> acc = NotOk s' t'")
  case True
  then show ?thesis using assms(1) by (auto simp: listActors_both_fail)
next
  case False
  from listActors_ok [OF assms False]
  show ?thesis using False by (auto simp: addPopular_all_fail)
qed

text \<open>
  Both listings refused: the envelope carries 401, the status of the owned one. Owned ok,
  accessible refused, every curated lookup 404: the owned items are returned.
\<close>

theorem listActors_errors_witness:
  "\<not> noKey (apiKeyOf (Some ''Bearer key'')) \<and>
   listActors (Some ''Bearer key'') (NotOk 401 ''Unauthorized'') (NotOk 403 ''Forbidden'')
       noCurated =
     \<lparr>list_code = 401, actors = [],
      list_error = Some (FetchActorsFailed 401 ''Unauthorized'')\<rparr> \<and>
   list_error (listActors (Some ''Bearer key'') (IsOk [actorWith ''A''])
       (NotOk 403 ''Forbidden'') noCurated) = None \<and>
   actors (listActors (Some ''Bearer key'') (IsOk [actorWith ''A''])
       (NotOk 403 ''Forbidden'') noCurated) = [actorWith ''A'']"
proof -
  have k: "\<not> noKey (apiKeyOf (Some ''Bearer key''))"
    by (simp add: noKey_def apiKeyOf_def)
  have c: "\<forall>i\<in>set popularActors. \<forall>d. noCurated i \<noteq> IsOk d"
    by (simp add: noCurated_def)
  have both: "list_code (listActors (Some ''Bearer key'') (NotOk 401 ''Unauthorized'')
        (NotOk 403 ''Forbidden'') noCurated) = 401 \<and>
      list_error (listActors (Some ''Bearer key'') (NotOk 401 ''Unauthorized'')
        (NotOk 403 ''Forbidden'') noCurated) = Some (FetchActorsFailed 401 ''Unauthorized'')"
    using listActors_errors [OF k, of "NotOk 401 ''Unauthorized''" "NotOk 403 ''Forbidden''"
        noCurated]
    by simp
  have empty: "actors (listActors (Some ''Bearer key'') (NotOk 401 ''Unauthorized'')
        (NotOk 403 ''Forbidden'') noCurated) = []"
    using k by (simp add: listActors_def)
  have a: "listActors (Some ''Bearer key'') (NotOk 401 ''Unauthorized'')
      (NotOk 403 ''Forbidden'') noCurated =
     \<lparr>list_code = 401, actors = [],
      list_error = Some (FetchActorsFailed 401 ''Unauthorized'')\<rparr>"
    using both empty
    by (cases "listActors (Some ''Bearer key'') (NotOk 401 ''Unauthorized'')
      (NotOk 403 ''Forbidden'') noCurated") simp
  have b: "list_error (listActors (Some ''Bearer key'') (IsOk [actorWith ''A''])
       (NotOk 403 ''Forbidden'') noCurated) = None \<and>
   actors (listActors (Some ''Bearer key'') (IsOk [actorWith ''A''])
       (NotOk 403 ''Forbidden'') noCurated) = [actorWith ''A'']"
    using listActors_errors [OF k, of "IsOk [actorWith ''A'']" "NotOk 403 ''Forbidden''"
        noCurated] c
    by (simp add: pushOwned_def pushAccessible_def)
  from k a b show ?thesis by blast
qed

text \<open>
  The owned request throws and the accessible listing is ok: the reply is an error
  envelope with status 500.
\<close>

theorem listActors_errors_counterexample:
  "listActors (Some ''Bearer key'') Threw (IsOk [actorWith ''A'']) noCurated =
     \<lparr>list_code = 500, actors = [], list_error = Some FetchActorsThrew\<rparr>"
  by (simp add: listActors_def noKey_def apiKeyOf_def)

section \<open>Properties of the run executor\<close>

lemma runWith_simps:
  "status (runWith s) = s" "run_id (runWith s) = ''HG7ML7M8z78YcAPEB''"
  by (simp_all add: runWith_def)

lemma pollLoop_exit:
  "status finalRun \<noteq> RUNNING \<Longrightarrow> pollLoop now getRun i finalRun = Some (Inr (finalRun, i))"
  by (subst pollLoop.simps) simp

lemma pollLoop_late:
  "\<not> now (Suc i) - now 0 < maxWaitTime \<Longrightarrow>
   pollLoop now getRun i finalRun = Some (Inr (finalRun, i))"
  by (subst pollLoop.simps) simp

lemma pollLoop_step:
  "status (lastObserved getRun run k) = RUNNING \<Longrightarrow> now (Suc k) - now 0 < maxWaitTime \<Longrightarrow>
   getRun k \<noteq> Threw \<Longrightarrow>
   pollLoop now getRun k (lastObserved getRun run k) =
     pollLoop now getRun (Suc k) (lastObserved getRun run (Suc k))"
  by (subst pollLoop.simps) (cases "getRun k"; simp)

lemma pollLoop_iterate:
  "\<forall>k<n. status (lastObserved getRun run k) = RUNNING \<and> now (Suc k) - now 0 < maxWaitTime \<and>
          getRun k \<noteq> Threw \<Longrightarrow>
   pollLoop now getRun 0 run = pollLoop now getRun n (lastObserved getRun run n)"
proof (induction n)
  case 0
  show ?case by simp
next
  case (Suc n)
  then have "pollLoop now getRun 0 run = pollLoop now getRun n (lastObserved getRun run n)"
    by simp
  also have "\<dots> = pollLoop now getRun (Suc n) (lastObserved getRun run (Suc n))"
    using Suc.prems by (intro pollLoop_step) auto
  finally show ?case .
qed

text \<open>The loop hands an exception to the handler only when a status request throws.\<close>

lemma pollLoop_no_throw:
  assumes "pollLoop now getRun i finalRun = Some out" and "\<forall>k. getRun k \<noteq> Threw"
  shows "\<exists>r n. out = Inr (r, n)"
proof -
  have "(\<forall>k. getRun k \<noteq> Threw) \<longrightarrow> (\<exists>r n. out = Inr (r, n))"
    by (rule pollLoop.raw_induct
          [where P = "\<lambda>now getRun i finalRun out.
                        (\<forall>k. getRun k \<noteq> Threw) \<longrightarrow> (\<exists>r n. out = Inr (r, n))",
           OF _ assms(1)])
       (auto split: if_splits fetched.splits)
  with assms(2) show ?thesis by simp
qed

lemma lastObserved_alwaysRunning:
  "status (lastObserved alwaysRunning (runWith RUNNING) k) = RUNNING"
  by (induction k) (simp_all add: alwaysRunning_def runWith_def)

text \<open>
  Claim C2 (a run that goes READY, RUNNING, SUCCEEDED within three polls has its dataset
  fetched once and a non-empty result returned). The loop of line 639 is entered only
  when the status is \<^verbatim>\<open>RUNNING\<close>, so a run submitted as \<^verbatim>\<open>READY\<close> is never polled. With
  a key, a submit that answers \<^verbatim>\<open>READY\<close>, status requests that would answer
  \<^verbatim>\<open>RUNNING\<close> and then \<^verbatim>\<open>SUCCEEDED\<close>, a clock that advances two seconds a reading and
  a dataset of one item, the handler issues the submit request alone and replies 200 with
  the \<^verbatim>\<open>READY\<close> run and no results.
\<close>

theorem executeActor_ready_never_polled:
  "executeActor (Some ''Bearer key'') ''apify/web-scraper'' None (IsOk (runWith READY))
     everyTwoSeconds runningThenSucceeded oneItem =
     Some (\<lparr>exec_code = 200, exec_run = Some (runWith READY), results = None,
            exec_error = None\<rparr>,
           [StartRun ''apify/web-scraper'' (JObj [])])"
  by (simp add: executeActor_def noKey_def apiKeyOf_def pollLoop_exit runWith_simps
      fetchResults_def successResponse_def inputOrEmpty_def)

text \<open>
  Claim C7, as amended. Take an invocation with a key and an actor id whose submit is ok, and a
  number \<open>n\<close> of status requests such that the clock stays under the ceiling of
  \<open>maxWaitTime\<close> at each of the first \<open>n\<close> loop tests and reaches it at the next, none of
  the \<open>n\<close> requests throws, and the run held is \<^verbatim>\<open>RUNNING\<close> throughout. Then the handler
  returns: the reply is a success envelope with status 200 and no error, it carries the
  last observed run, still \<^verbatim>\<open>RUNNING\<close>, without results, and the requests issued are the
  submit and \<open>n\<close> status requests, no dataset request among them.
\<close>

theorem executeActor_ceiling:
  assumes "\<not> noKey (apiKeyOf authorization)" and "actorId \<noteq> []"
    and "startRun = IsOk run"
    and "\<forall>k<n. now (Suc k) - now 0 < maxWaitTime \<and> getRun k \<noteq> Threw"
    and "\<forall>k\<le>n. status (lastObserved getRun run k) = RUNNING"
    and "now (Suc n) - now 0 \<ge> maxWaitTime"
  shows "executeActor authorization actorId input startRun now getRun getDataset =
           Some (\<lparr>exec_code = 200, exec_run = Some (lastObserved getRun run n),
                  results = None, exec_error = None\<rparr>,
                 StartRun actorId (inputOrEmpty input)
                   # replicate n (GetRun actorId (run_id run)))"
proof -
  have "pollLoop now getRun 0 run = pollLoop now getRun n (lastObserved getRun run n)"
    using assms(4,5) by (intro pollLoop_iterate) auto
  also have "\<dots> = Some (Inr (lastObserved getRun run n, n))"
    using assms(6) by (intro pollLoop_late) simp
  finally have "pollLoop now getRun 0 run = Some (Inr (lastObserved getRun run n, n))" .
  moreover have "status (lastObserved getRun run n) \<noteq> SUCCEEDED"
    using assms(5) by simp
  ultimately show ?thesis
    using assms(1,2,3) by (simp add: executeActor_def fetchResults_def successResponse_def)
qed

text \<open>
  A run that stays \<^verbatim>\<open>RUNNING\<close>, polled every two seconds with every other request
  refused: the 30th reading of the clock is 60 seconds after the start, after 29 requests.
\<close>

theorem executeActor_ceiling_witness:
  "\<not> noKey (apiKeyOf (Some ''Bearer key'')) \<and>
   everyTwoSeconds (Suc 28) - everyTwoSeconds 0 < maxWaitTime \<and>
   everyTwoSeconds (Suc 29) - everyTwoSeconds 0 \<ge> maxWaitTime \<and>
   status (lastObserved alwaysRunning (runWith RUNNING) 29) = RUNNING \<and>
   executeActor (Some ''Bearer key'') ''apify/web-scraper'' None (IsOk (runWith RUNNING))
       everyTwoSeconds alwaysRunning oneItem =
     Some (\<lparr>exec_code = 200, exec_run = Some (lastObserved alwaysRunning (runWith RUNNING) 29),
            results = None, exec_error = None\<rparr>,
           StartRun ''apify/web-scraper'' (JObj [])
             # replicate 29 (GetRun ''apify/web-scraper'' ''HG7ML7M8z78YcAPEB''))"
proof -
  have k: "\<not> noKey (apiKeyOf (Some ''Bearer key''))"
    by (simp add: noKey_def apiKeyOf_def)
  have a: "''apify/web-scraper'' \<noteq> []" by simp
  have c: "\<forall>k<29. everyTwoSeconds (Suc k) - everyTwoSeconds 0 < maxWaitTime \<and>
                  alwaysRunning k \<noteq> Threw"
    by (auto simp: everyTwoSeconds_def pollInterval_def maxWaitTime_def alwaysRunning_def)
  have s: "\<forall>k\<le>29. status (lastObserved alwaysRunning (runWith RUNNING) k) = RUNNING"
    by (simp add: lastObserved_alwaysRunning)
  have e: "everyTwoSeconds (Suc 29) - everyTwoSeconds 0 \<ge> maxWaitTime"
    by (simp add: everyTwoSeconds_def pollInterval_def maxWaitTime_def)
  from executeActor_ceiling [OF k a refl c s e, of None oneItem]
  have "executeActor (Some ''Bearer key'') ''apify/web-scraper'' None (IsOk (runWith RUNNING))
       everyTwoSeconds alwaysRunning oneItem =
     Some (\<lparr>exec_code = 200, exec_run = Some (lastObserved alwaysRunning (runWith RUNNING) 29),
            results = None, exec_error = None\<rparr>,
           StartRun ''apify/web-scraper'' (JObj [])
             # replicate 29 (GetRun ''apify/web-scraper'' ''HG7ML7M8z78YcAPEB''))"
    by (simp add: inputOrEmpty_def runWith_simps)
  moreover have "everyTwoSeconds (Suc 28) - everyTwoSeconds 0 < maxWaitTime"
    by (simp add: everyTwoSeconds_def pollInterval_def maxWaitTime_def)
  moreover have "status (lastObserved alwaysRunning (runWith RUNNING) 29) = RUNNING"
    by (rule lastObserved_alwaysRunning)
  ultimately show ?thesis using k e by blast
qed

text \<open>
  The run is \<^verbatim>\<open>RUNNING\<close> at every observation and the clock reaches the ceiling at its
  30th reading, but the sixth status request throws: the handler's \<^verbatim>\<open>catch\<close> replies with
  the error envelope of status 500 after six status requests.
\<close>

theorem executeActor_ceiling_counterexample:
  "everyTwoSeconds (Suc 28) - everyTwoSeconds 0 < maxWaitTime \<and>
   everyTwoSeconds (Suc 29) - everyTwoSeconds 0 \<ge> maxWaitTime \<and>
   status (lastObserved oneGlitch (runWith RUNNING) 29) = RUNNING \<and>
   executeActor (Some ''Bearer key'') ''apify/web-scraper'' None (IsOk (runWith RUNNING))
       everyTwoSeconds oneGlitch oneItem =
     Some (\<lparr>exec_code = 500, exec_run = None, results = None,
            exec_error = Some ExecuteThrew\<rparr>,
           StartRun ''apify/web-scraper'' (JObj [])
             # replicate 6 (GetRun ''apify/web-scraper'' ''HG7ML7M8z78YcAPEB''))"
proof -
  have glitch: "oneGlitch k = Threw \<or> oneGlitch k = IsOk (runWith RUNNING)" for k
    by (simp add: oneGlitch_def)
  have held: "lastObserved oneGlitch (runWith RUNNING) k = runWith RUNNING" for k
  proof (induction k)
    case 0
    show ?case by simp
  next
    case (Suc k)
    with glitch [of k] show ?case by auto
  qed
  have "pollLoop everyTwoSeconds oneGlitch 0 (runWith RUNNING) =
      pollLoop everyTwoSeconds oneGlitch 5 (lastObserved oneGlitch (runWith RUNNING) 5)"
    by (intro pollLoop_iterate)
       (auto simp: held runWith_simps everyTwoSeconds_def pollInterval_def maxWaitTime_def
          oneGlitch_def)
  also have "\<dots> = Some (Inl (Suc 5))"
    unfolding held
    by (subst pollLoop.simps)
       (simp add: runWith_simps everyTwoSeconds_def pollInterval_def maxWaitTime_def
          oneGlitch_def)
  finally have "pollLoop everyTwoSeconds oneGlitch 0 (runWith RUNNING) = Some (Inl 6)"
    by simp
  then have "executeActor (Some ''Bearer key'') ''apify/web-scraper'' None
       (IsOk (runWith RUNNING)) everyTwoSeconds oneGlitch oneItem =
     Some (\<lparr>exec_code = 500, exec_run = None, results = None,
            exec_error = Some ExecuteThrew\<rparr>,
           StartRun ''apify/web-scraper'' (JObj [])
             # replicate 6 (GetRun ''apify/web-scraper'' ''HG7ML7M8z78YcAPEB''))"
    by (simp add: executeActor_def noKey_def apiKeyOf_def executeThrew_def inputOrEmpty_def
        runWith_simps)
  moreover have "everyTwoSeconds (Suc 28) - everyTwoSeconds 0 < maxWaitTime"
    by (simp add: everyTwoSeconds_def pollInterval_def maxWaitTime_def)
  moreover have "everyTwoSeconds (Suc 29) - everyTwoSeconds 0 \<ge> maxWaitTime"
    by (simp add: everyTwoSeconds_def pollInterval_def maxWaitTime_def)
  moreover have "status (lastObserved oneGlitch (runWith RUNNING) 29) = RUNNING"
    by (simp add: held runWith_simps)
  ultimately show ?thesis by blast
qed

text \<open>
  Claim C8, as amended. A status request answered with a response that is not ok is
  ignored: while the run held is \<^verbatim>\<open>RUNNING\<close> and the clock is under the ceiling, the loop
  goes on to its next iteration with the same run. And an invocation with a key, an actor
  id and an ok submit in which no status request throws never replies with an error
  envelope: when it returns, the reply carries a run and no error, whatever responses
  that are not ok the status requests met.
\<close>

theorem failed_poll_ignored:
  "(status finalRun = RUNNING \<and> now (Suc i) - now 0 < maxWaitTime \<and> getRun i = NotOk s t \<longrightarrow>
      pollLoop now getRun i finalRun = pollLoop now getRun (Suc i) finalRun) \<and>
   (\<not> noKey (apiKeyOf authorization) \<and> actorId \<noteq> [] \<and> startRun = IsOk run \<and>
    (\<forall>k. getRun k \<noteq> Threw) \<and>
    executeActor authorization actorId input startRun now getRun getDataset =
      Some (reply, requests) \<longrightarrow>
      exec_error reply = None \<and> exec_run reply \<noteq> None)"
proof (intro conjI impI)
  assume "status finalRun = RUNNING \<and> now (Suc i) - now 0 < maxWaitTime \<and> getRun i = NotOk s t"
  then show "pollLoop now getRun i finalRun = pollLoop now getRun (Suc i) finalRun"
    by (subst pollLoop.simps) simp
next
  assume a: "\<not> noKey (apiKeyOf authorization) \<and> actorId \<noteq> [] \<and> startRun = IsOk run \<and>
    (\<forall>k. getRun k \<noteq> Threw) \<and>
    executeActor authorization actorId input startRun now getRun getDataset =
      Some (reply, requests)"
  then obtain out where out: "pollLoop now getRun 0 run = Some out"
    by (cases "pollLoop now getRun 0 run") (auto simp: executeActor_def)
  with a obtain r n where "out = Inr (r, n)"
    using pollLoop_no_throw by blast
  with a out show "exec_error reply = None" and "exec_run reply \<noteq> None"
    by (auto simp: executeActor_def fetchResults_def successResponse_def
        split: if_splits fetched.splits)
qed

text \<open>
  The first status request is answered 502 and the second one \<^verbatim>\<open>SUCCEEDED\<close>: the loop
  goes on after the refusal, and the reply carries the run and the dataset.
\<close>

theorem failed_poll_ignored_witness:
  "status (runWith RUNNING) = RUNNING \<and>
   everyTwoSeconds (Suc 0) - everyTwoSeconds 0 < maxWaitTime \<and>
   failsThenSucceeded 0 = NotOk 502 ''Bad Gateway'' \<and>
   \<not> noKey (apiKeyOf (Some ''Bearer key'')) \<and>
   pollLoop everyTwoSeconds failsThenSucceeded 0 (runWith RUNNING) =
     pollLoop everyTwoSeconds failsThenSucceeded (Suc 0) (runWith RUNNING) \<and>
   executeActor (Some ''Bearer key'') ''apify/web-scraper'' None (IsOk (runWith RUNNING))
       everyTwoSeconds failsThenSucceeded oneItem =
     Some (\<lparr>exec_code = 200, exec_run = Some (runWith SUCCEEDED),
            results = Some [[(''url'', JStr ''https://example.com'')]], exec_error = None\<rparr>,
           [StartRun ''apify/web-scraper'' (JObj []),
            GetRun ''apify/web-scraper'' ''HG7ML7M8z78YcAPEB'',
            GetRun ''apify/web-scraper'' ''HG7ML7M8z78YcAPEB'',
            GetDataset ''apify/web-scraper'' ''HG7ML7M8z78YcAPEB'']) \<and>
   exec_error (fst (the (executeActor (Some ''Bearer key'') ''apify/web-scraper'' None
       (IsOk (runWith RUNNING)) everyTwoSeconds failsThenSucceeded oneItem))) = None"
proof -
  have h1: "status (runWith RUNNING) = RUNNING" by (simp add: runWith_simps)
  have h2: "everyTwoSeconds (Suc 0) - everyTwoSeconds 0 < maxWaitTime"
    by (simp add: everyTwoSeconds_def pollInterval_def maxWaitTime_def)
  have h3: "failsThenSucceeded 0 = NotOk 502 ''Bad Gateway''"
    by (simp add: failsThenSucceeded_def)
  have h4: "\<not> noKey (apiKeyOf (Some ''Bearer key''))"
    by (simp add: noKey_def apiKeyOf_def)
  have h5: "\<forall>k. failsThenSucceeded k \<noteq> Threw"
    by (simp add: failsThenSucceeded_def)
  have p1: "pollLoop everyTwoSeconds failsThenSucceeded 0 (runWith RUNNING) =
      pollLoop everyTwoSeconds failsThenSucceeded (Suc 0) (runWith RUNNING)"
    using failed_poll_ignored [where finalRun = "runWith RUNNING" and now = everyTwoSeconds
        and i = 0 and getRun = failsThenSucceeded and s = 502 and t = "''Bad Gateway''"]
      h1 h2 h3 by blast
  have p2: "pollLoop everyTwoSeconds failsThenSucceeded (Suc 0) (runWith RUNNING) =
      pollLoop everyTwoSeconds failsThenSucceeded (Suc (Suc 0)) (runWith SUCCEEDED)"
    by (subst pollLoop.simps)
       (simp add: runWith_simps everyTwoSeconds_def pollInterval_def maxWaitTime_def
          failsThenSucceeded_def)
  have p3: "pollLoop everyTwoSeconds failsThenSucceeded (Suc (Suc 0)) (runWith SUCCEEDED) =
      Some (Inr (runWith SUCCEEDED, Suc (Suc 0)))"
    by (subst pollLoop.simps) (simp add: runWith_simps)
  have e: "executeActor (Some ''Bearer key'') ''apify/web-scraper'' None (IsOk (runWith RUNNING))
       everyTwoSeconds failsThenSucceeded oneItem =
     Some (\<lparr>exec_code = 200, exec_run = Some (runWith SUCCEEDED),
            results = Some [[(''url'', JStr ''https://example.com'')]], exec_error = None\<rparr>,
           [StartRun ''apify/web-scraper'' (JObj []),
            GetRun ''apify/web-scraper'' ''HG7ML7M8z78YcAPEB'',
            GetRun ''apify/web-scraper'' ''HG7ML7M8z78YcAPEB'',
            GetDataset ''apify/web-scraper'' ''HG7ML7M8z78YcAPEB''])"
    using h4 by (simp add: executeActor_def p1 p2 p3 fetchResults_def successResponse_def
        oneItem_def inputOrEmpty_def runWith_simps)
  have f: "exec_error (fst (the (executeActor (Some ''Bearer key'') ''apify/web-scraper'' None
       (IsOk (runWith RUNNING)) everyTwoSeconds failsThenSucceeded oneItem))) = None"
    using failed_poll_ignored [where getRun = failsThenSucceeded
        and authorization = "Some ''Bearer key''" and actorId = "''apify/web-scraper''"
        and startRun = "IsOk (runWith RUNNING)" and run = "runWith RUNNING"
        and now = everyTwoSeconds and input = None and getDataset = oneItem] h4 h5 e
    by simp
  from h1 h2 h3 h4 p1 e f show ?thesis by simp
qed

text \<open>
  The first status request throws: the handler's \<^verbatim>\<open>catch\<close> replies with the error
  envelope of status 500.
\<close>

theorem failed_poll_ignored_counterexample:
  "executeActor (Some ''Bearer key'') ''apify/web-scraper'' None (IsOk (runWith RUNNING))
     everyTwoSeconds pollThrows oneItem =
     Some (\<lparr>exec_code = 500, exec_run = None, results = None,
            exec_error = Some ExecuteThrew\<rparr>,
           [StartRun ''apify/web-scraper'' (JObj []),
            GetRun ''apify/web-scraper'' ''HG7ML7M8z78YcAPEB''])"
proof -
  have "pollLoop everyTwoSeconds pollThrows 0 (runWith RUNNING) = Some (Inl (Suc 0))"
    by (subst pollLoop.simps)
       (simp add: runWith_simps everyTwoSeconds_def pollInterval_def maxWaitTime_def
          pollThrows_def)
  then show ?thesis
    by (simp add: executeActor_def noKey_def apiKeyOf_def executeThrew_def inputOrEmpty_def
        runWith_simps)
qed

text \<open>
  Claim C9. In every invocation that returns a reply carrying a run: \<^verbatim>\<open>results\<close> is
  present exactly when that run is \<^verbatim>\<open>SUCCEEDED\<close> and the dataset request gave a
  non-empty list, and then it is that list; for a \<^verbatim>\<open>SUCCEEDED\<close> run it is absent when
  the list is empty, as it is when the dataset request fails; and the dataset is
  requested exactly when the run is \<^verbatim>\<open>SUCCEEDED\<close>.
\<close>

theorem results_present_iff_nonempty:
  assumes "executeActor authorization actorId input startRun now getRun getDataset =
             Some (reply, requests)"
    and "exec_run reply = Some finalRun"
  shows "(results reply \<noteq> None \<longleftrightarrow>
            status finalRun = SUCCEEDED \<and> (\<exists>items. getDataset = IsOk items \<and> items \<noteq> [])) \<and>
         (\<forall>items. results reply = Some items \<longrightarrow> getDataset = IsOk items) \<and>
         (status finalRun = SUCCEEDED \<and> getDataset = IsOk [] \<longrightarrow> results reply = None) \<and>
         (status finalRun = SUCCEEDED \<and> (\<forall>items. getDataset \<noteq> IsOk items) \<longrightarrow>
            results reply = None) \<and>
         ((\<exists>r. GetDataset actorId r \<in> set requests) \<longleftrightarrow> status finalRun = SUCCEEDED)"
  using assms
  by (auto simp: executeActor_def fetchResults_def successResponse_def executeThrew_def
      split: if_splits fetched.splits option.splits sum.splits prod.splits)

text \<open>A \<^verbatim>\<open>SUCCEEDED\<close> run with an empty dataset, and the same run with one item.\<close>

theorem results_present_iff_nonempty_witness:
  "executeActor (Some ''Bearer key'') ''apify/web-scraper'' None (IsOk (runWith SUCCEEDED))
       everyTwoSeconds runningThenSucceeded emptyDataset =
     Some (\<lparr>exec_code = 200, exec_run = Some (runWith SUCCEEDED), results = None,
            exec_error = None\<rparr>,
           [StartRun ''apify/web-scraper'' (JObj []),
            GetDataset ''apify/web-scraper'' ''HG7ML7M8z78YcAPEB'']) \<and>
   executeActor (Some ''Bearer key'') ''apify/web-scraper'' None (IsOk (runWith SUCCEEDED))
       everyTwoSeconds runningThenSucceeded oneItem =
     Some (\<lparr>exec_code = 200, exec_run = Some (runWith SUCCEEDED),
            results = Some [[(''url'', JStr ''https://example.com'')]], exec_error = None\<rparr>,
           [StartRun ''apify/web-scraper'' (JObj []),
            GetDataset ''apify/web-scraper'' ''HG7ML7M8z78YcAPEB''])"
proof -
  have k: "\<not> noKey (apiKeyOf (Some ''Bearer key''))"
    by (simp add: noKey_def apiKeyOf_def)
  obtain reply requests where
    e: "executeActor (Some ''Bearer key'') ''apify/web-scraper'' None (IsOk (runWith SUCCEEDED))
          everyTwoSeconds runningThenSucceeded emptyDataset = Some (reply, requests)"
    and r: "exec_run reply = Some (runWith SUCCEEDED)" "exec_code reply = 200"
      "exec_error reply = None"
    and q: "requests = [StartRun ''apify/web-scraper'' (JObj []),
            GetDataset ''apify/web-scraper'' ''HG7ML7M8z78YcAPEB'']"
    using k by (simp add: executeActor_def pollLoop_exit runWith_simps fetchResults_def
        successResponse_def emptyDataset_def inputOrEmpty_def)
  from results_present_iff_nonempty [OF e r(1)]
  have "results reply = None"
    by (simp add: runWith_simps emptyDataset_def)
  with r have "reply = \<lparr>exec_code = 200, exec_run = Some (runWith SUCCEEDED), results = None,
            exec_error = None\<rparr>"
    by (cases reply) simp
  with e q have first: "executeActor (Some ''Bearer key'') ''apify/web-scraper'' None
       (IsOk (runWith SUCCEEDED)) everyTwoSeconds runningThenSucceeded emptyDataset =
     Some (\<lparr>exec_code = 200, exec_run = Some (runWith SUCCEEDED), results = None,
            exec_error = None\<rparr>,
           [StartRun ''apify/web-scraper'' (JObj []),
            GetDataset ''apify/web-scraper'' ''HG7ML7M8z78YcAPEB''])"
    by simp
  obtain reply' requests' where
    e': "executeActor (Some ''Bearer key'') ''apify/web-scraper'' None (IsOk (runWith SUCCEEDED))
          everyTwoSeconds runningThenSucceeded oneItem = Some (reply', requests')"
    and r': "exec_run reply' = Some (runWith SUCCEEDED)" "exec_code reply' = 200"
      "exec_error reply' = None"
    and q': "requests' = [StartRun ''apify/web-scraper'' (JObj []),
            GetDataset ''apify/web-scraper'' ''HG7ML7M8z78YcAPEB'']"
    using k by (simp add: executeActor_def pollLoop_exit runWith_simps fetchResults_def
        successResponse_def oneItem_def inputOrEmpty_def)
  from results_present_iff_nonempty [OF e' r'(1)]
  have "results reply' \<noteq> None"
    "\<forall>items. results reply' = Some items \<longrightarrow> oneItem = IsOk items"
    by (simp_all add: runWith_simps oneItem_def)
  then have "results reply' = Some [[(''url'', JStr ''https://example.com'')]]"
    by (auto simp: oneItem_def)
  with r' have "reply' = \<lparr>exec_code = 200, exec_run = Some (runWith SUCCEEDED),
            results = Some [[(''url'', JStr ''https://example.com'')]], exec_error = None\<rparr>"
    by (cases reply') simp
  with e' q' first show ?thesis by simp
qed

text \<open>
  Claim C10. When the submit is ok and the run it returns has any status other than
  \<^verbatim>\<open>RUNNING\<close>, the handler returns, no status request is issued, the reply carries that
  run and no error, and the requests are the submit, followed by one dataset request
  exactly when the status is already \<^verbatim>\<open>SUCCEEDED\<close>.
\<close>

theorem not_running_never_polled:
  assumes "\<not> noKey (apiKeyOf authorization)" and "actorId \<noteq> []"
    and "startRun = IsOk run" and "status run \<noteq> RUNNING"
  shows "\<exists>reply requests.
           executeActor authorization actorId input startRun now getRun getDataset =
             Some (reply, requests) \<and>
           exec_run reply = Some run \<and> exec_error reply = None \<and>
           (\<forall>r. GetRun actorId r \<notin> set requests) \<and>
           requests = StartRun actorId (inputOrEmpty input)
                        # (if status run = SUCCEEDED then [GetDataset actorId (run_id run)]
                           else [])"
  using assms
  by (auto simp: executeActor_def pollLoop_exit fetchResults_def successResponse_def
      split: fetched.splits)

text \<open>A run submitted as \<^verbatim>\<open>READY\<close>: the submit is the only request.\<close>

theorem not_running_never_polled_witness:
  "\<not> noKey (apiKeyOf (Some ''Bearer key'')) \<and> ''apify/web-scraper'' \<noteq> [] \<and>
   status (runWith READY) \<noteq> RUNNING \<and>
   (\<exists>reply.
      executeActor (Some ''Bearer key'') ''apify/web-scraper'' None (IsOk (runWith READY))
        everyTwoSeconds runningThenSucceeded oneItem =
        Some (reply, [StartRun ''apify/web-scraper'' (JObj [])]) \<and>
      exec_run reply = Some (runWith READY) \<and> exec_error reply = None)"
proof -
  have k: "\<not> noKey (apiKeyOf (Some ''Bearer key''))"
    by (simp add: noKey_def apiKeyOf_def)
  have a: "''apify/web-scraper'' \<noteq> []" by simp
  have s: "status (runWith READY) \<noteq> RUNNING" by (simp add: runWith_simps)
  from not_running_never_polled [OF k a refl s, of None everyTwoSeconds runningThenSucceeded
      oneItem]
  have "\<exists>reply.
      executeActor (Some ''Bearer key'') ''apify/web-scraper'' None (IsOk (runWith READY))
        everyTwoSeconds runningThenSucceeded oneItem =
        Some (reply, [StartRun ''apify/web-scraper'' (JObj [])]) \<and>
      exec_run reply = Some (runWith READY) \<and> exec_error reply = None"
    by (auto simp: runWith_simps inputOrEmpty_def)
  with k a s show ?thesis by blast
qed

section \<open>Properties of the schema resolver\<close>

text \<open>The guarded blocks of the handler compute the first success among the probes.\<close>

lemma cascade_firstSuccess:
  "tryFallback pf actorData
     (tryPredefined predefined actorId
       (tryExample pf actorData
         (tryBuilds up actorId
           (tryTaggedBuild up actorId actorData
             (tryVersions up actorId (embeddedSchema actorData, [GetActor actorId])))))) =
   (snd (firstSuccess (probes pf predefined up actorId actorData)),
    GetActor actorId # fst (firstSuccess (probes pf predefined up actorId actorData)))"
  by (simp add: tryFallback_def tryPredefined_def tryExample_def tryBuilds_def
      tryTaggedBuild_def tryVersions_def probes_def split: option.splits)

text \<open>
  Claim C5. With a key, an actor id and an ok actor detail, the handler replies 200 with
  the schema of the first probe, in the order of the specification, that finds one, and
  its requests are the detail request followed by the requests of the probes up to that
  one. In particular, when the first entry of the detail's version list embeds a schema
  \<open>S\<close>, the reply is exactly \<open>S\<close> after the detail request alone, whatever the actor id
  and the predefined schema are.
\<close>

theorem getActorSchema_cascade:
  assumes "\<not> noKey (apiKeyOf authorization)" and "actorId \<noteq> []"
    and "actorResponse up = IsOk actorData"
  shows "getActorSchema pf predefined up authorization actorId =
           (\<lparr>schema_code = 200,
             reply_schema = snd (firstSuccess (probes pf predefined up actorId actorData)),
             schema_error = None\<rparr>,
            GetActor actorId # fst (firstSuccess (probes pf predefined up actorId actorData))) \<and>
         (\<forall>latestVersion others S.
            versions actorData = latestVersion # others \<and> inputSchema latestVersion = Some S \<longrightarrow>
            getActorSchema pf predefined up authorization actorId =
              (\<lparr>schema_code = 200, reply_schema = Some S, schema_error = None\<rparr>,
               [GetActor actorId]))"
proof -
  have first: "getActorSchema pf predefined up authorization actorId =
           (\<lparr>schema_code = 200,
             reply_schema = snd (firstSuccess (probes pf predefined up actorId actorData)),
             schema_error = None\<rparr>,
            GetActor actorId # fst (firstSuccess (probes pf predefined up actorId actorData)))"
    using assms by (simp add: getActorSchema_def cascade_firstSuccess)
  have "firstSuccess (probes pf predefined up actorId actorData) = ([], Some S)"
    if "versions actorData = latestVersion # others" "inputSchema latestVersion = Some S"
    for latestVersion others S
    using that by (simp add: probes_def embeddedSchema_def)
  with first show ?thesis by simp
qed

text \<open>
  The actor with the id of the predefined schema, whose first version embeds \<open>schemaS\<close>:
  the reply is \<open>schemaS\<close>, not the predefined schema.
\<close>

theorem getActorSchema_cascade_witness:
  "\<not> noKey (apiKeyOf (Some ''Bearer key'')) \<and> ''nwua9Gu5YrADL7ZDj'' \<noteq> [] \<and>
   actorResponse mapsUpstream = IsOk mapsActor \<and>
   versions mapsActor = \<lparr>versionNumber = ''0.1'', buildTag = ''latest'',
                          inputSchema = Some schemaS\<rparr> # [] \<and>
   getActorSchema examplePlatform overrideSchema mapsUpstream (Some ''Bearer key'')
       ''nwua9Gu5YrADL7ZDj'' =
     (\<lparr>schema_code = 200, reply_schema = Some schemaS, schema_error = None\<rparr>,
      [GetActor ''nwua9Gu5YrADL7ZDj''])"
proof -
  have k: "\<not> noKey (apiKeyOf (Some ''Bearer key''))"
    by (simp add: noKey_def apiKeyOf_def)
  have a: "''nwua9Gu5YrADL7ZDj'' \<noteq> []" by simp
  have u: "actorResponse mapsUpstream = IsOk mapsActor" by (simp add: mapsUpstream_def)
  have v: "versions mapsActor = \<lparr>versionNumber = ''0.1'', buildTag = ''latest'',
                          inputSchema = Some schemaS\<rparr> # []"
    by (simp add: mapsActor_def)
  have i: "inputSchema \<lparr>versionNumber = ''0.1'', buildTag = ''latest'',
                          inputSchema = Some schemaS\<rparr> = Some schemaS"
    by simp
  from conjunct2 [OF getActorSchema_cascade [OF k a u, of examplePlatform overrideSchema]] v i
  have "getActorSchema examplePlatform overrideSchema mapsUpstream (Some ''Bearer key'')
       ''nwua9Gu5YrADL7ZDj'' =
     (\<lparr>schema_code = 200, reply_schema = Some schemaS, schema_error = None\<rparr>,
      [GetActor ''nwua9Gu5YrADL7ZDj''])"
    by blast
  with k a u v show ?thesis by blast
qed

section \<open>Properties of the schema synthesizer\<close>

text \<open>The type and the format that the source gives the property of each kind of value.\<close>

lemma exampleProperty_type:
  "field ''type'' (exampleProperty pf key value) =
     Some (JStr (case value of
                   JStr s \<Rightarrow> ''string''
                 | JNum n \<Rightarrow> ''number''
                 | JBool b \<Rightarrow> ''boolean''
                 | JArr xs \<Rightarrow> ''array''
                 | JObj kvs \<Rightarrow> ''object''
                 | JNull \<Rightarrow> ''object''))"
  by (cases "value") (simp_all add: exampleProperty_def)

lemma exampleProperty_format:
  "field ''format'' (exampleProperty pf key value) =
     (case value of
        JStr s \<Rightarrow> if length s > 50 then Some (JStr ''textarea'') else None
      | _ \<Rightarrow> None)"
  by (cases "value") (simp_all add: exampleProperty_def)

lemma exampleProperties_other:
  "key \<notin> fst ` set kvs \<Longrightarrow> exampleProperties pf kvs props key = props key"
  by (induction kvs arbitrary: props) auto

lemma exampleProperties_lookup:
  "distinct (map fst kvs) \<Longrightarrow> (key, value) \<in> set kvs \<Longrightarrow> key \<noteq> ''__proto__'' \<Longrightarrow>
   exampleProperties pf kvs props key = Some (exampleProperty pf key value)"
proof (induction kvs arbitrary: props)
  case Nil
  then show ?case by simp
next
  case (Cons kv kvs)
  obtain k v where kv: "kv = (k, v)" by (cases kv)
  show ?case
  proof (cases "(key, value) = kv")
    case True
    with Cons.prems kv show ?thesis by (simp add: exampleProperties_other)
  next
    case False
    with Cons kv show ?thesis by auto
  qed
qed

text \<open>
  For every entry of an example object whose key is not \<^verbatim>\<open>__proto__\<close>, the property of
  its key is the one made from its value: of type \<^verbatim>\<open>string\<close>, \<^verbatim>\<open>number\<close>, \<^verbatim>\<open>boolean\<close>, \<^verbatim>\<open>array\<close> or \<^verbatim>\<open>object\<close> by the
  kind of the value, a string longer than 50 being a \<^verbatim>\<open>textarea\<close>.
\<close>

lemma exampleSchema_property:
  assumes "distinct (map fst kvs)" and "(key, value) \<in> set kvs" and "key \<noteq> ''__proto__''"
  shows "\<exists>property.
           properties (exampleSchema pf actorData (JObj kvs)) key = Some property \<and>
           field ''type'' property =
             Some (JStr (case value of
                           JStr s \<Rightarrow> ''string''
                         | JNum n \<Rightarrow> ''number''
                         | JBool b \<Rightarrow> ''boolean''
                         | JArr xs \<Rightarrow> ''array''
                         | JObj nested \<Rightarrow> ''object''
                         | JNull \<Rightarrow> ''object'')) \<and>
           field ''format'' property =
             (case value of
                JStr s \<Rightarrow> if length s > 50 then Some (JStr ''textarea'') else None
              | _ \<Rightarrow> None)"
  using exampleProperties_lookup [OF assms, of pf Map.empty]
  by (simp add: exampleSchema_def exampleProperty_type exampleProperty_format)

text \<open>
  Claim C6 (the property of an example value is typed by the kind of the value, and
  \<^verbatim>\<open>string\<close> for any other value such as \<^verbatim>\<open>null\<close>). The chain of line 373 reaches
  \<^verbatim>\<open>typeof value === 'object'\<close> before its final \<^verbatim>\<open>else\<close>, and \<^verbatim>\<open>typeof null\<close> is
  \<^verbatim>\<open>'object'\<close>: for the example \<^verbatim>\<open>{"note": null}\<close> the schema has the property \<^verbatim>\<open>note\<close>
  with type \<^verbatim>\<open>object\<close>, on every platform and for every actor.
\<close>

theorem null_example_typed_object:
  "properties (exampleSchema pf actorData (JObj [(''note'', JNull)])) ''note'' =
     Some (JObj [(''title'', JStr (toUpperCase pf ''n'' @ ''ote'')),
                 (''description'', JStr ''Input parameter: note''),
                 (''type'', JStr ''object'')]) \<and>
   field ''type'' (exampleProperty pf ''note'' JNull) = Some (JStr ''object'')"
  by (simp add: exampleSchema_def exampleProperty_def)

end
